theory Spec2Isabelle
  imports Complex_Main
begin

section \<open>Permeability estimator (radial flow): the script \<open>rate.py\<close>\<close>

text \<open>
  The script reads nine numbers from a form, shows a point estimate of the permeability
  (or an error banner), and plots one sensitivity series per selected option.

  Numbers: a finite double is modelled as a \<^typ>\<open>real\<close>, so rounding and overflow are
  outside the model. What the script's operations do when they leave the reals is kept:
  Python's \<open>/\<close> on two floats raises \<open>ZeroDivisionError\<close>, whereas numpy's division and
  logarithm return \<open>inf\<close>, \<open>-inf\<close> or \<open>nan\<close> (with a warning only). The three
  non-finite values are one constructor, \<open>NonFinite\<close>: the script never divides by a
  numpy result, and in every operation it does apply to one (adding a float, multiplying
  by a float, dividing by a float, taking the logarithm) a non-finite operand gives a
  non-finite result.
\<close>

subsection \<open>Values and arithmetic\<close>

datatype py_error = ZeroDivisionError

datatype npfloat = Fin real | NonFinite

text \<open>Python \<open>a / b\<close> on two floats.\<close>

definition py_div :: "real \<Rightarrow> real \<Rightarrow> py_error + real" where
  "py_div a b = (if b = 0 then Inl ZeroDivisionError else Inr (a / b))"

text \<open>\<open>np.log\<close>: \<open>log(0) = -inf\<close>, \<open>log\<close> of a negative number is \<open>nan\<close>.\<close>

fun np_log :: "npfloat \<Rightarrow> npfloat" where
  "np_log (Fin x) = (if 0 < x then Fin (ln x) else NonFinite)"
| "np_log NonFinite = NonFinite"

text \<open>numpy value \<open>+\<close> float, float \<open>*\<close> numpy value, numpy value \<open>/\<close> float.\<close>

fun np_add :: "npfloat \<Rightarrow> real \<Rightarrow> npfloat" where
  "np_add (Fin x) y = Fin (x + y)"
| "np_add NonFinite y = NonFinite"

fun np_mul :: "real \<Rightarrow> npfloat \<Rightarrow> npfloat" where
  "np_mul c (Fin x) = Fin (c * x)"
| "np_mul c NonFinite = NonFinite"

fun np_div :: "npfloat \<Rightarrow> real \<Rightarrow> npfloat" where
  "np_div (Fin x) y = (if y = 0 then NonFinite else Fin (x / y))"
| "np_div NonFinite y = NonFinite"

text \<open>
  \<open>np.linspace(start, stop, num)\<close>: \<open>num\<close> samples \<open>start + n * step\<close> with
  \<open>step = (stop - start) / (num - 1)\<close>, the last one overwritten with \<open>stop\<close>.
\<close>

definition linspace :: "real \<Rightarrow> real \<Rightarrow> nat \<Rightarrow> real list" where
  "linspace start stop num =
     (let step = (stop - start) / real (num - 1);
          y = map (\<lambda>n. start + real n * step) [0..<num]
      in if 1 < num then y[num - 1 := stop] else y)"

subsection \<open>Inputs (lines 16 to 24)\<close>

record inputs =
  q :: real
  pe :: real
  pwf :: real
  h :: real
  mu :: real
  B :: real
  re :: real
  rw :: real
  skin :: real

text \<open>The values the form starts with.\<close>

definition defaults :: inputs where
  "defaults = \<lparr>q = 500, pe = 2000, pwf = 1000, h = 20, mu = 1, B = 1,
                re = 1000, rw = 0.333, skin = 0\<rparr>"

subsection \<open>Permeability calculation (lines 27 to 32)\<close>

definition delta_p :: "inputs \<Rightarrow> real" where
  "delta_p i = pe i - pwf i"

text \<open>\<open>np.log(re/rw)\<close> with \<open>re\<close> and \<open>rw\<close> Python floats: the division can raise.\<close>

definition log_ratio :: "inputs \<Rightarrow> py_error + npfloat" where
  "log_ratio i =
     (case py_div (re i) (rw i) of
        Inl e \<Rightarrow> Inl e
      | Inr r \<Rightarrow> Inr (np_log (Fin r)))"

text \<open>Line 31, the right-hand side of \<open>k = ...\<close>.\<close>

definition k :: "inputs \<Rightarrow> py_error + npfloat" where
  "k i =
     (case log_ratio i of
        Inl e \<Rightarrow> Inl e
      | Inr l \<Rightarrow>
          Inr (np_div (np_mul (162.6 * q i * mu i * B i) (np_add l (skin i)))
                 (h i * delta_p i)))"

text \<open>What the page shows for the point estimate: \<open>st.error\<close> or \<open>st.success\<close>.\<close>

datatype banner = StError string | StSuccess npfloat

definition point_estimate :: "inputs \<Rightarrow> py_error + banner" where
  "point_estimate i =
     (if delta_p i \<le> 0 then Inr (StError ''Pe must be greater than Pwf'')
      else (case k i of Inl e \<Rightarrow> Inl e | Inr v \<Rightarrow> Inr (StSuccess v)))"

subsection \<open>Sensitivity analysis (lines 37 to 85)\<close>

text \<open>The nine choices of the multiselect, in the order of the source.\<close>

datatype axis =
  FlowRate | Thickness | FVF | DrainageRadius | Viscosity | DeltaP
  | ReservoirPressure | FlowingPressure | Skin

definition choices :: "axis list" where
  "choices = [FlowRate, Thickness, FVF, DrainageRadius, Viscosity, DeltaP,
              ReservoirPressure, FlowingPressure, Skin]"

type_synonym points = "(real \<times> npfloat) list"

text \<open>Drainage radius (lines 47 to 50): \<open>re_range / rw\<close> is a numpy division.\<close>

definition re_range :: "real list" where
  "re_range = linspace 200 5000 50"

definition k_values_re :: "inputs \<Rightarrow> real \<Rightarrow> npfloat" where
  "k_values_re i x =
     np_div (np_mul (162.6 * q i * mu i * B i)
               (np_add (np_log (np_div (Fin x) (rw i))) (skin i)))
       (h i * delta_p i)"

definition re_sweep :: "inputs \<Rightarrow> py_error + points" where
  "re_sweep i = Inr (map (\<lambda>x. (x, k_values_re i x)) re_range)"

text \<open>Viscosity (lines 52 to 55).\<close>

definition mu_range :: "real list" where
  "mu_range = linspace 0.2 5 50"

definition k_values_mu :: "inputs \<Rightarrow> npfloat \<Rightarrow> real \<Rightarrow> npfloat" where
  "k_values_mu i l x =
     np_div (np_mul (162.6 * q i * x * B i) (np_add l (skin i))) (h i * delta_p i)"

definition mu_sweep :: "inputs \<Rightarrow> py_error + points" where
  "mu_sweep i =
     (case log_ratio i of
        Inl e \<Rightarrow> Inl e
      | Inr l \<Rightarrow> Inr (map (\<lambda>x. (x, k_values_mu i l x)) mu_range))"

text \<open>Pressure drop (lines 57 to 60): the sample replaces \<open>delta_p\<close>.\<close>

definition dp_range :: "real list" where
  "dp_range = linspace 100 3000 50"

definition k_values_dp :: "inputs \<Rightarrow> npfloat \<Rightarrow> real \<Rightarrow> npfloat" where
  "k_values_dp i l x =
     np_div (np_mul (162.6 * q i * mu i * B i) (np_add l (skin i))) (h i * x)"

definition dp_sweep :: "inputs \<Rightarrow> py_error + points" where
  "dp_sweep i =
     (case log_ratio i of
        Inl e \<Rightarrow> Inl e
      | Inr l \<Rightarrow> Inr (map (\<lambda>x. (x, k_values_dp i l x)) dp_range))"

text \<open>Reservoir pressure (lines 62 to 65).\<close>

definition pe_range :: "inputs \<Rightarrow> real list" where
  "pe_range i = linspace (pwf i + 100) 5000 50"

definition k_values_pe :: "inputs \<Rightarrow> npfloat \<Rightarrow> real \<Rightarrow> npfloat" where
  "k_values_pe i l x =
     np_div (np_mul (162.6 * q i * mu i * B i) (np_add l (skin i)))
       (h i * (x - pwf i))"

definition pe_sweep :: "inputs \<Rightarrow> py_error + points" where
  "pe_sweep i =
     (case log_ratio i of
        Inl e \<Rightarrow> Inl e
      | Inr l \<Rightarrow> Inr (map (\<lambda>x. (x, k_values_pe i l x)) (pe_range i)))"

text \<open>Bottomhole flowing pressure (lines 67 to 70).\<close>

definition pwf_range :: "inputs \<Rightarrow> real list" where
  "pwf_range i = linspace 100 (pe i - 50) 50"

definition k_values_pwf :: "inputs \<Rightarrow> npfloat \<Rightarrow> real \<Rightarrow> npfloat" where
  "k_values_pwf i l x =
     np_div (np_mul (162.6 * q i * mu i * B i) (np_add l (skin i)))
       (h i * (pe i - x))"

definition pwf_sweep :: "inputs \<Rightarrow> py_error + points" where
  "pwf_sweep i =
     (case log_ratio i of
        Inl e \<Rightarrow> Inl e
      | Inr l \<Rightarrow> Inr (map (\<lambda>x. (x, k_values_pwf i l x)) (pwf_range i)))"

text \<open>Skin (lines 72 to 75).\<close>

definition s_range :: "real list" where
  "s_range = linspace (- 5) 20 50"

definition k_values_s :: "inputs \<Rightarrow> npfloat \<Rightarrow> real \<Rightarrow> npfloat" where
  "k_values_s i l x =
     np_div (np_mul (162.6 * q i * mu i * B i) (np_add l x)) (h i * delta_p i)"

definition s_sweep :: "inputs \<Rightarrow> py_error + points" where
  "s_sweep i =
     (case log_ratio i of
        Inl e \<Rightarrow> Inl e
      | Inr l \<Rightarrow> Inr (map (\<lambda>x. (x, k_values_s i l x)) s_range))"

text \<open>Flow rate (lines 77 to 80).\<close>

definition q_range :: "real list" where
  "q_range = linspace 100 4000 50"

definition k_values_q :: "inputs \<Rightarrow> npfloat \<Rightarrow> real \<Rightarrow> npfloat" where
  "k_values_q i l x =
     np_div (np_mul (162.6 * x * mu i * B i) (np_add l (skin i))) (h i * delta_p i)"

definition q_sweep :: "inputs \<Rightarrow> py_error + points" where
  "q_sweep i =
     (case log_ratio i of
        Inl e \<Rightarrow> Inl e
      | Inr l \<Rightarrow> Inr (map (\<lambda>x. (x, k_values_q i l x)) q_range))"

text \<open>Layer thickness (lines 82 to 85).\<close>

definition h_range :: "real list" where
  "h_range = linspace 5 100 50"

definition k_values_h :: "inputs \<Rightarrow> npfloat \<Rightarrow> real \<Rightarrow> npfloat" where
  "k_values_h i l x =
     np_div (np_mul (162.6 * q i * mu i * B i) (np_add l (skin i))) (x * delta_p i)"

definition h_sweep :: "inputs \<Rightarrow> py_error + points" where
  "h_sweep i =
     (case log_ratio i of
        Inl e \<Rightarrow> Inl e
      | Inr l \<Rightarrow> Inr (map (\<lambda>x. (x, k_values_h i l x)) h_range))"

text \<open>
  The eight \<open>if ... in options:\<close> blocks, in the order of the source. No block tests
  the formation volume factor.
\<close>

definition blocks :: "(axis \<times> (inputs \<Rightarrow> py_error + points)) list" where
  "blocks =
     [(DrainageRadius, re_sweep), (Viscosity, mu_sweep), (DeltaP, dp_sweep),
      (ReservoirPressure, pe_sweep), (FlowingPressure, pwf_sweep), (Skin, s_sweep),
      (FlowRate, q_sweep), (Thickness, h_sweep)]"

text \<open>
  Running the blocks: a block whose option is selected adds its line to the plot; an
  exception in a block ends the run.
\<close>

fun run_blocks ::
  "(axis \<times> (inputs \<Rightarrow> py_error + points)) list \<Rightarrow> inputs \<Rightarrow> axis list
     \<Rightarrow> py_error + (axis \<times> points) list" where
  "run_blocks [] i options = Inr []"
| "run_blocks ((a, f) # bs) i options =
     (if a \<in> set options then
        (case f i of
           Inl e \<Rightarrow> Inl e
         | Inr pts \<Rightarrow>
             (case run_blocks bs i options of
                Inl e \<Rightarrow> Inl e
              | Inr ss \<Rightarrow> Inr ((a, pts) # ss)))
      else run_blocks bs i options)"

definition sensitivity :: "inputs \<Rightarrow> axis list \<Rightarrow> py_error + (axis \<times> points) list" where
  "sensitivity i options = run_blocks blocks i options"

text \<open>The sweep of one axis: the script run with that single option selected.\<close>

definition sweep :: "axis \<Rightarrow> inputs \<Rightarrow> py_error + (axis \<times> points) list" where
  "sweep a i = sensitivity i [a]"

subsection \<open>The whole page\<close>

text \<open>
  The banner is on the page as soon as the point estimate is done; the figure is drawn
  by the last line, so an exception in any block leaves no figure.
\<close>

record page =
  shown :: "banner option"
  figure :: "(axis \<times> points) list option"
  exception :: "py_error option"

definition script :: "inputs \<Rightarrow> axis list \<Rightarrow> page" where
  "script i options =
     (case point_estimate i of
        Inl e \<Rightarrow> \<lparr>shown = None, figure = None, exception = Some e\<rparr>
      | Inr b \<Rightarrow>
          (case sensitivity i options of
             Inl e \<Rightarrow> \<lparr>shown = Some b, figure = None, exception = Some e\<rparr>
           | Inr ss \<Rightarrow> \<lparr>shown = Some b, figure = Some ss, exception = None\<rparr>))"

subsection \<open>Reading a result\<close>

text \<open>
  The line plotted for an axis: \<open>None\<close> when the run raised or plotted no line for it.
\<close>

definition series_of :: "axis \<Rightarrow> py_error + (axis \<times> points) list \<Rightarrow> points option" where
  "series_of a r = (case r of Inl e \<Rightarrow> None | Inr ss \<Rightarrow> map_of ss a)"

section \<open>Properties\<close>

subsection \<open>Evenly spaced samples\<close>

lemma linspace_eq:
  "linspace a b n = map (\<lambda>m. a + real m * ((b - a) / real (n - 1))) [0..<n]"
proof (cases "1 < n")
  case True
  have "(map (\<lambda>m. a + real m * ((b - a) / real (n - 1))) [0..<n])[n - 1 := b]
        = map (\<lambda>m. a + real m * ((b - a) / real (n - 1))) [0..<n]"
    using True by (intro nth_equalityI) (auto simp: nth_list_update)
  then show ?thesis using True by (simp add: linspace_def Let_def)
next
  case False
  then show ?thesis by (simp add: linspace_def Let_def)
qed

lemma length_linspace: "length (linspace a b n) = n"
  by (simp add: linspace_eq)

lemma nth_linspace:
  "m < n \<Longrightarrow> linspace a b n ! m = a + real m * ((b - a) / real (n - 1))"
  by (simp add: linspace_eq)

lemma hd_linspace: "0 < n \<Longrightarrow> hd (linspace a b n) = a"
  by (simp add: linspace_eq upt_conv_Cons)

lemma last_linspace: "1 < n \<Longrightarrow> last (linspace a b n) = b"
  by (simp add: last_conv_nth length_linspace nth_linspace flip: length_0_conv)

lemma sorted_linspace:
  assumes "1 < n"
  shows "sorted_wrt (<) (linspace a b n) = (a < b)"
proof
  assume s: "sorted_wrt (<) (linspace a b n)"
  have "linspace a b n ! 0 < linspace a b n ! (n - 1)"
    using s assms by (simp add: sorted_wrt_iff_nth_less length_linspace)
  then show "a < b" using assms by (simp add: nth_linspace)
next
  assume ab: "a < b"
  have step: "0 < (b - a) / real (n - 1)" using ab assms by simp
  show "sorted_wrt (<) (linspace a b n)"
    unfolding sorted_wrt_iff_nth_less length_linspace
  proof (intro allI impI)
    fix i j assume ij: "i < j" "j < n"
    then have "real i < real j" by simp
    then have "real i * ((b - a) / real (n - 1)) < real j * ((b - a) / real (n - 1))"
      using step by (rule mult_strict_right_mono)
    moreover have "i < n" using ij by simp
    ultimately show "linspace a b n ! i < linspace a b n ! j"
      using ij(2) by (simp only: nth_linspace add_less_cancel_left)
  qed
qed


subsection \<open>Bounds on the exponential and on the logarithm of the default radius ratio\<close>

lemma exp_taylor5_lower:
  fixes y :: real
  assumes "0 \<le> y"
  shows "1 + y + y\<^sup>2 / 2 + y ^ 3 / 6 + y ^ 4 / 24 \<le> exp y"
proof -
  obtain t where t: "exp y = (\<Sum>m<5. y ^ m / fact m) + exp t / fact 5 * y ^ 5"
    using Maclaurin_exp_le [of y 5] by blast
  have "0 \<le> exp t / fact 5 * y ^ 5" using assms by simp
  moreover have "(\<Sum>m<5. y ^ m / fact m) = 1 + y + y\<^sup>2 / 2 + y ^ 3 / 6 + y ^ 4 / 24"
    by (simp add: eval_nat_numeral lessThan_Suc fact_numeral)
  ultimately show ?thesis using t by linarith
qed

lemma exp_taylor5_upper:
  fixes y :: real
  assumes "0 \<le> y" "y \<le> 1"
  shows "exp y \<le> 1 + y + y\<^sup>2 / 2 + y ^ 3 / 6 + y ^ 4 / 24 + y ^ 5 / 40"
proof -
  obtain t where t: "\<bar>t\<bar> \<le> \<bar>y\<bar>"
      "exp y = (\<Sum>m<5. y ^ m / fact m) + exp t / fact 5 * y ^ 5"
    using Maclaurin_exp_le [of y 5] by blast
  have "t \<le> 1" using t(1) assms by linarith
  then have "exp t \<le> exp 1" by simp
  then have et: "exp t \<le> 3" using exp_le by linarith
  have "exp t * y ^ 5 \<le> 3 * y ^ 5"
    using et assms(1) by (intro mult_right_mono) auto
  then have "exp t / fact 5 * y ^ 5 \<le> y ^ 5 / 40"
    by (simp add: fact_numeral)
  moreover have "(\<Sum>m<5. y ^ m / fact m) = 1 + y + y\<^sup>2 / 2 + y ^ 3 / 6 + y ^ 4 / 24"
    by (simp add: eval_nat_numeral lessThan_Suc fact_numeral)
  ultimately show ?thesis using t(2) by linarith
qed

lemma exp_double_upper:
  fixes y c d :: real
  assumes "exp y \<le> c" "c * c \<le> d"
  shows "exp (2 * y) \<le> d"
proof -
  have "exp (2 * y) = exp y * exp y" by (simp add: exp_add [symmetric])
  also have "\<dots> \<le> c * c"
    using assms(1) by (intro mult_mono) (auto intro: order_trans [OF exp_ge_zero])
  finally show ?thesis using assms(2) by linarith
qed

lemma exp_double_lower:
  fixes y c d :: real
  assumes "c \<le> exp y" "0 \<le> c \<and> d \<le> c * c"
  shows "d \<le> exp (2 * y)"
proof -
  have "c * c \<le> exp y * exp y"
    using assms by (intro mult_mono) auto
  also have "\<dots> = exp (2 * y)" by (simp add: exp_add [symmetric])
  finally show ?thesis using assms(2) by linarith
qed

lemma exp_8_0062_upper: "exp (8.0062::real) \<le> 2999.5829308767"
proof -
  have e0: "exp (0.125096875::real) \<le> 1.1332587374"
    using exp_taylor5_upper [of "0.125096875"] by (simp add: power_divide)
  have e1: "exp (0.25019375::real) \<le> 1.2842753659"
    using exp_double_upper [OF e0, of "1.2842753659"] by simp
  have e2: "exp (0.5003875::real) \<le> 1.6493632155"
    using exp_double_upper [OF e1, of "1.6493632155"] by simp
  have e3: "exp (1.000775::real) \<le> 2.7203990167"
    using exp_double_upper [OF e2, of "2.7203990167"] by simp
  have e4: "exp (2.00155::real) \<le> 7.4005708101"
    using exp_double_upper [OF e3, of "7.4005708101"] by simp
  have e5: "exp (4.0031::real) \<le> 54.7684483154"
    using exp_double_upper [OF e4, of "54.7684483154"] by simp
  have e6: "exp (8.0062::real) \<le> 2999.5829308767"
    using exp_double_upper [OF e5, of "2999.5829308767"] by simp
  show ?thesis by (rule e6)
qed

lemma exp_8_0085_lower: "(3006.3597827039::real) \<le> exp 8.0085"
proof -
  have e0: "(1.1332986982::real) \<le> exp 0.1251328125"
    using exp_taylor5_lower [of "0.1251328125"] by (simp add: power_divide)
  have e1: "(1.2843659393::real) \<le> exp 0.250265625"
    using exp_double_lower [OF e0, of "1.2843659393"] by simp
  have e2: "(1.649595866::real) \<le> exp 0.50053125"
    using exp_double_lower [OF e1, of "1.649595866"] by simp
  have e3: "(2.7211665211::real) \<le> exp 1.0010625"
    using exp_double_lower [OF e2, of "2.7211665211"] by simp
  have e4: "(7.4047472355::real) \<le> exp 2.002125"
    using exp_double_lower [OF e3, of "7.4047472355"] by simp
  have e5: "(54.8302816216::real) \<le> exp 4.00425"
    using exp_double_lower [OF e4, of "54.8302816216"] by simp
  have e6: "(3006.3597827039::real) \<le> exp 8.0085"
    using exp_double_lower [OF e5, of "3006.3597827039"] by simp
  show ?thesis by (rule e6)
qed

lemma ln_default_ratio_bounds:
  "8.0062 < ln (1000000 / 333 :: real)" "ln (1000000 / 333 :: real) < 8.0085"
proof -
  have "exp (8.0062::real) < 1000000 / 333"
    using exp_8_0062_upper by simp
  then have "ln (exp (8.0062::real)) < ln (1000000 / 333)"
    by (subst ln_less_cancel_iff) simp_all
  then show "8.0062 < ln (1000000 / 333 :: real)" by simp
  have "(1000000 / 333 :: real) < exp 8.0085"
    using exp_8_0085_lower by simp
  then have "ln (1000000 / 333 :: real) < ln (exp (8.0085::real))"
    by (subst ln_less_cancel_iff) simp_all
  then show "ln (1000000 / 333 :: real) < 8.0085" by simp
qed

subsection \<open>The validity gate\<close>

text \<open>
  C2. The point estimate ends in the validation error exactly when \<open>pe \<le> pwf\<close>,
  whatever the other seven fields hold; the message is the literal
  "Pe must be greater than Pwf", and then no numeric estimate is shown.
\<close>

theorem point_estimate_validation:
  "((\<exists>m. point_estimate i = Inr (StError m)) = (pe i \<le> pwf i))
   \<and> ((point_estimate i = Inr (StError ''Pe must be greater than Pwf''))
         = (pe i \<le> pwf i))
   \<and> (pe i \<le> pwf i \<longrightarrow>
         point_estimate (i\<lparr>q := qa, h := ha, mu := mua, B := Ba, re := rea, rw := rwa,
                           skin := sa\<rparr>)
           = Inr (StError ''Pe must be greater than Pwf''))
   \<and> (pe i \<le> pwf i \<longrightarrow> point_estimate i \<noteq> Inr (StSuccess v))"
proof -
  have gate: "point_estimate j = Inr (StError ''Pe must be greater than Pwf'')"
    if "pe j \<le> pwf j" for j
    using that by (simp add: point_estimate_def delta_p_def)
  have passed: "point_estimate i \<noteq> Inr (StError m)" if "pwf i < pe i" for m
    using that by (simp add: point_estimate_def delta_p_def split: sum.splits)
  have "(\<exists>m. point_estimate i = Inr (StError m)) = (pe i \<le> pwf i)"
    using gate [of i] passed by (cases "pe i \<le> pwf i") auto
  moreover have "(point_estimate i = Inr (StError ''Pe must be greater than Pwf''))
      = (pe i \<le> pwf i)"
    using gate [of i] passed by (cases "pe i \<le> pwf i") auto
  moreover have "point_estimate (i\<lparr>q := qa, h := ha, mu := mua, B := Ba, re := rea,
                                   rw := rwa, skin := sa\<rparr>)
      = Inr (StError ''Pe must be greater than Pwf'')" if "pe i \<le> pwf i"
    using that by (intro gate) simp
  moreover have "point_estimate i \<noteq> Inr (StSuccess v)" if "pe i \<le> pwf i"
    using gate [OF that] by simp
  ultimately show ?thesis by blast
qed

theorem point_estimate_validation_witness:
  "pe (defaults\<lparr>pe := 1000, pwf := 1500\<rparr>) \<le> pwf (defaults\<lparr>pe := 1000, pwf := 1500\<rparr>)
   \<and> point_estimate (defaults\<lparr>pe := 1000, pwf := 1500\<rparr>)
       = Inr (StError ''Pe must be greater than Pwf'')
   \<and> point_estimate (defaults\<lparr>pe := 1000, pwf := 1500, rw := 0\<rparr>)
       = Inr (StError ''Pe must be greater than Pwf'')
   \<and> point_estimate (defaults\<lparr>pe := 1000, pwf := 1500\<rparr>) \<noteq> Inr (StSuccess (Fin 0))"
  using point_estimate_validation
    [where i = "defaults\<lparr>pe := 1000, pwf := 1500\<rparr>" and qa = 500 and ha = 20
       and mua = 1 and Ba = 1 and rea = 1000 and rwa = 0 and sa = 0 and v = "Fin 0"]
  by (simp add: defaults_def)

subsection \<open>The point estimate\<close>

lemma log_ratio_eq: "rw i \<noteq> 0 \<Longrightarrow> log_ratio i = Inr (np_log (Fin (re i / rw i)))"
  by (simp add: log_ratio_def py_div_def)

lemma log_ratio_raises: "rw i = 0 \<Longrightarrow> log_ratio i = Inl ZeroDivisionError"
  by (simp add: log_ratio_def py_div_def)





lemma default_k_value:
  "(162.6 * 500 * 1 * 1 * (ln (1000 / 0.333) + 0) / (20 * 1000) :: real)
   = 4.065 * ln (1000000 / 333)"
  by simp

text \<open>
  C10 (amended). For \<open>q=500, pe=2000, pwf=1000, h=20, mu=1, B=1, re=1000, rw=0.333, s=0\<close>
  the point estimate succeeds with
  \<open>k = 162.6*500*1*1*(ln(1000/0.333)+0)/(20*1000)\<close>, which is 32.55 to two decimals.
\<close>

theorem default_point_estimate:
  "point_estimate \<lparr>q = 500, pe = 2000, pwf = 1000, h = 20, mu = 1, B = 1,
                    re = 1000, rw = 0.333, skin = 0\<rparr>
   = Inr (StSuccess (Fin (162.6 * 500 * 1 * 1 * (ln (1000 / 0.333) + 0) / (20 * 1000))))
   \<and> \<bar>162.6 * 500 * 1 * 1 * (ln (1000 / 0.333) + 0) / (20 * 1000) - 32.55\<bar> < (0.005 :: real)"
proof -
  have "point_estimate \<lparr>q = 500, pe = 2000, pwf = 1000, h = 20, mu = 1, B = 1,
                          re = 1000, rw = 0.333, skin = 0\<rparr>
        = Inr (StSuccess (Fin (162.6 * 500 * 1 * 1 * (ln (1000 / 0.333) + 0) / (20 * 1000))))"
    by (simp add: point_estimate_def delta_p_def k_def log_ratio_eq)
  moreover have "\<bar>4.065 * ln (1000000 / 333) - 32.55\<bar> < (0.005 :: real)"
    using ln_default_ratio_bounds unfolding abs_less_iff by simp
  ultimately show ?thesis by (simp only: default_k_value)
qed

text \<open>The value is nowhere near 68.72: it is more than 36 below it.\<close>

theorem default_point_estimate_counterexample:
  "point_estimate \<lparr>q = 500, pe = 2000, pwf = 1000, h = 20, mu = 1, B = 1,
                    re = 1000, rw = 0.333, skin = 0\<rparr>
   = Inr (StSuccess (Fin (162.6 * 500 * 1 * 1 * (ln (1000 / 0.333) + 0) / (20 * 1000))))
   \<and> 162.6 * 500 * 1 * 1 * (ln (1000 / 0.333) + 0) / (20 * 1000) < (68.72 - 36 :: real)"
proof -
  have "point_estimate \<lparr>q = 500, pe = 2000, pwf = 1000, h = 20, mu = 1, B = 1,
                          re = 1000, rw = 0.333, skin = 0\<rparr>
        = Inr (StSuccess (Fin (162.6 * 500 * 1 * 1 * (ln (1000 / 0.333) + 0) / (20 * 1000))))"
    by (simp add: point_estimate_def delta_p_def k_def log_ratio_eq)
  moreover have "4.065 * ln (1000000 / 333) < (68.72 - 36 :: real)"
    using ln_default_ratio_bounds by simp
  ultimately show ?thesis by (simp only: default_k_value)
qed

subsection \<open>One selected option\<close>

lemma sweep_FVF: "sweep FVF i = Inr []"
  by (simp add: sweep_def sensitivity_def blocks_def)

lemma sweep_re:
  "sweep DrainageRadius i
   = Inr [(DrainageRadius, map (\<lambda>x. (x, k_values_re i x)) re_range)]"
  by (simp add: sweep_def sensitivity_def blocks_def re_sweep_def)



lemma sweep_dp:
  "rw i \<noteq> 0 \<Longrightarrow> sweep DeltaP i
     = Inr [(DeltaP,
             map (\<lambda>x. (x, k_values_dp i (np_log (Fin (re i / rw i))) x)) dp_range)]"
  by (simp add: sweep_def sensitivity_def blocks_def dp_sweep_def log_ratio_eq)






subsection \<open>The formation volume factor option\<close>

lemma run_blocks_unwired:
  "a \<notin> fst ` set bs \<Longrightarrow> run_blocks bs i (a # options) = run_blocks bs i options"
  by (induction bs i options rule: run_blocks.induct) (auto split: sum.splits)

lemma run_blocks_no_series:
  "a \<notin> fst ` set bs \<Longrightarrow> series_of a (run_blocks bs i options) = None"
proof (induction bs i options rule: run_blocks.induct)
  case (1 i options)
  then show ?case by (simp add: series_of_def)
next
  case (2 b f bs i options)
  then show ?case by (auto simp: series_of_def split: sum.splits)
qed

lemma FVF_unwired: "FVF \<notin> fst ` set blocks"
  by (simp add: blocks_def)

text \<open>
  C9. The formation volume factor is one of the choices offered, but no block plots it:
  selecting it alone plots nothing, adding it to any selection changes nothing, and no
  run ever has a series for it.
\<close>

theorem FVF_no_series:
  "FVF \<in> set choices
   \<and> sweep FVF i = Inr []
   \<and> series_of FVF (sweep FVF i) = None
   \<and> sensitivity i (FVF # options) = sensitivity i options
   \<and> series_of FVF (sensitivity i options) = None"
  using run_blocks_unwired [OF FVF_unwired] run_blocks_no_series [OF FVF_unwired]
  by (simp add: choices_def sweep_FVF sensitivity_def series_of_def)

theorem FVF_no_series_witness:
  "FVF \<in> set choices
   \<and> sweep FVF defaults = Inr []
   \<and> series_of FVF (sweep FVF defaults) = None
   \<and> sensitivity defaults [FVF, DrainageRadius] = sensitivity defaults [DrainageRadius]
   \<and> series_of FVF (sensitivity defaults [FVF, DrainageRadius]) = None"
  using FVF_no_series [of defaults "[DrainageRadius]"] FVF_no_series [of defaults "[FVF, DrainageRadius]"]
  by simp

subsection \<open>The pressure-drop sweep\<close>

text \<open>
  C8. Two inputs that agree on \<open>q\<close>, \<open>mu\<close>, \<open>B\<close>, \<open>re\<close>, \<open>rw\<close>, \<open>s\<close> and \<open>h\<close> give the same
  pressure-drop sweep, whatever their \<open>pe\<close> and \<open>pwf\<close>: the run raises for both or
  plots the same series for both. When it plots, each of the 50 samples from 100 to 3000
  stands in the denominator in place of \<open>pe - pwf\<close>.
\<close>

theorem dp_sweep_noninterference:
  assumes "q i = q j" and "mu i = mu j" and "B i = B j" and "re i = re j"
    and "rw i = rw j" and "skin i = skin j" and "h i = h j"
  shows "sweep DeltaP i = sweep DeltaP j
         \<and> series_of DeltaP (sweep DeltaP i) = series_of DeltaP (sweep DeltaP j)
         \<and> (rw i \<noteq> 0 \<longrightarrow>
              series_of DeltaP (sweep DeltaP i)
              = Some (map (\<lambda>x. (x, np_div (np_mul (162.6 * q i * mu i * B i)
                                              (np_add (np_log (Fin (re i / rw i))) (skin i)))
                                      (h i * x)))
                        (linspace 100 3000 50)))"
proof -
  have "log_ratio i = log_ratio j" using assms by (simp add: log_ratio_def)
  moreover have "k_values_dp i = k_values_dp j"
    using assms by (simp add: k_values_dp_def fun_eq_iff)
  ultimately have "dp_sweep i = dp_sweep j"
    by (simp add: dp_sweep_def split: sum.splits)
  then have runs: "sweep DeltaP i = sweep DeltaP j"
    by (simp add: sweep_def sensitivity_def blocks_def split: sum.splits)
  then have series: "series_of DeltaP (sweep DeltaP i) = series_of DeltaP (sweep DeltaP j)"
    by (simp only:)
  have "series_of DeltaP (sweep DeltaP i)
        = Some (map (\<lambda>x. (x, np_div (np_mul (162.6 * q i * mu i * B i)
                                        (np_add (np_log (Fin (re i / rw i))) (skin i)))
                                (h i * x)))
                  (linspace 100 3000 50))" if "rw i \<noteq> 0"
    by (simp add: sweep_dp [OF that] series_of_def k_values_dp_def dp_range_def)
  then show ?thesis using runs series by blast
qed

theorem dp_sweep_noninterference_witness:
  "q defaults = q (defaults\<lparr>pe := 1000, pwf := 1500\<rparr>)
   \<and> mu defaults = mu (defaults\<lparr>pe := 1000, pwf := 1500\<rparr>)
   \<and> B defaults = B (defaults\<lparr>pe := 1000, pwf := 1500\<rparr>)
   \<and> re defaults = re (defaults\<lparr>pe := 1000, pwf := 1500\<rparr>)
   \<and> rw defaults = rw (defaults\<lparr>pe := 1000, pwf := 1500\<rparr>)
   \<and> skin defaults = skin (defaults\<lparr>pe := 1000, pwf := 1500\<rparr>)
   \<and> h defaults = h (defaults\<lparr>pe := 1000, pwf := 1500\<rparr>)
   \<and> rw defaults \<noteq> 0
   \<and> pe defaults \<noteq> pe (defaults\<lparr>pe := 1000, pwf := 1500\<rparr>)
   \<and> pwf defaults \<noteq> pwf (defaults\<lparr>pe := 1000, pwf := 1500\<rparr>)
   \<and> sweep DeltaP defaults = sweep DeltaP (defaults\<lparr>pe := 1000, pwf := 1500\<rparr>)
   \<and> series_of DeltaP (sweep DeltaP (defaults\<lparr>pe := 1000, pwf := 1500\<rparr>))
       = Some (map (\<lambda>x. (x, np_div (np_mul (162.6 * q defaults * mu defaults * B defaults)
                                       (np_add (np_log (Fin (re defaults / rw defaults)))
                                          (skin defaults)))
                               (h defaults * x)))
                 (linspace 100 3000 50))"
proof -
  have same: "q defaults = q (defaults\<lparr>pe := 1000, pwf := 1500\<rparr>)"
    "mu defaults = mu (defaults\<lparr>pe := 1000, pwf := 1500\<rparr>)"
    "B defaults = B (defaults\<lparr>pe := 1000, pwf := 1500\<rparr>)"
    "re defaults = re (defaults\<lparr>pe := 1000, pwf := 1500\<rparr>)"
    "rw defaults = rw (defaults\<lparr>pe := 1000, pwf := 1500\<rparr>)"
    "skin defaults = skin (defaults\<lparr>pe := 1000, pwf := 1500\<rparr>)"
    "h defaults = h (defaults\<lparr>pe := 1000, pwf := 1500\<rparr>)"
    by simp_all
  have other: "rw defaults \<noteq> 0"
    "pe defaults \<noteq> pe (defaults\<lparr>pe := 1000, pwf := 1500\<rparr>)"
    "pwf defaults \<noteq> pwf (defaults\<lparr>pe := 1000, pwf := 1500\<rparr>)"
    by (simp_all add: defaults_def)
  note both = dp_sweep_noninterference [OF same]
  have runs: "sweep DeltaP defaults = sweep DeltaP (defaults\<lparr>pe := 1000, pwf := 1500\<rparr>)"
    using both by (rule conjunct1)
  have "series_of DeltaP (sweep DeltaP defaults)
        = Some (map (\<lambda>x. (x, np_div (np_mul (162.6 * q defaults * mu defaults * B defaults)
                                       (np_add (np_log (Fin (re defaults / rw defaults)))
                                          (skin defaults)))
                               (h defaults * x)))
                 (linspace 100 3000 50))"
    using both other(1) by blast
  then have series: "series_of DeltaP (sweep DeltaP (defaults\<lparr>pe := 1000, pwf := 1500\<rparr>))
        = Some (map (\<lambda>x. (x, np_div (np_mul (162.6 * q defaults * mu defaults * B defaults)
                                       (np_add (np_log (Fin (re defaults / rw defaults)))
                                          (skin defaults)))
                               (h defaults * x)))
                 (linspace 100 3000 50))"
    by (simp only: runs)
  show ?thesis
    by (intro conjI) (fact same other runs series)+
qed

subsection \<open>The drainage-radius sweep\<close>

lemma re_range_eq: "re_range = map (\<lambda>n. 200 + real n * ((5000 - 200) / 49)) [0..<50]"
  by (simp add: re_range_def linspace_eq)

lemma re_range_facts:
  "length re_range = 50" "re_range \<noteq> []" "hd re_range = 200" "last re_range = 5000"
  "sorted_wrt (<) re_range"
  using length_linspace [of 200 5000 50] hd_linspace [of 50 200 5000]
    last_linspace [of 50 200 5000] sorted_linspace [of 50 200 5000]
  by (auto simp: re_range_def)

lemma k_values_re_eq:
  "rw i \<noteq> 0 \<Longrightarrow> k (i\<lparr>re := x\<rparr>) = Inr (k_values_re i x)"
  by (simp add: k_def log_ratio_eq k_values_re_def delta_p_def)

text \<open>
  C3 (amended). For every input the drainage-radius sweep returns exactly 50 pairs; the
  axis values are \<open>200 + n * (5000 - 200) / 49\<close> for \<open>n = 0, ..., 49\<close>, from 200 to 5000
  inclusive and strictly increasing. For every input with \<open>rw \<noteq> 0\<close> each paired value is
  what line 31 computes for the input with \<open>re\<close> replaced by the sample.
\<close>

theorem re_sweep_series:
  "\<exists>pts. series_of DrainageRadius (sweep DrainageRadius i) = Some pts
      \<and> length pts = 50
      \<and> map fst pts = map (\<lambda>n. 200 + real n * ((5000 - 200) / 49)) [0..<50]
      \<and> fst (hd pts) = 200 \<and> fst (last pts) = 5000
      \<and> sorted_wrt (<) (map fst pts)
      \<and> (rw i \<noteq> 0 \<longrightarrow> (\<forall>(x, v) \<in> set pts. k (i\<lparr>re := x\<rparr>) = Inr v))"
proof -
  define pts where "pts = map (\<lambda>x. (x, k_values_re i x)) re_range"
  have "series_of DrainageRadius (sweep DrainageRadius i) = Some pts"
    by (simp add: sweep_re series_of_def pts_def)
  moreover have "length pts = 50" by (simp add: pts_def re_range_facts)
  moreover have axis: "map fst pts = re_range" by (simp add: pts_def comp_def)
  moreover have "fst (hd pts) = 200" "fst (last pts) = 5000"
    by (simp_all add: pts_def hd_map last_map re_range_facts)
  moreover have "\<forall>(x, v) \<in> set pts. k (i\<lparr>re := x\<rparr>) = Inr v" if "rw i \<noteq> 0"
    using that by (auto simp: pts_def k_values_re_eq)
  ultimately show ?thesis
    using re_range_eq re_range_facts(5) by (intro exI [of _ pts]) simp
qed

theorem re_sweep_series_witness:
  "rw defaults \<noteq> 0
   \<and> (\<exists>pts. series_of DrainageRadius (sweep DrainageRadius defaults) = Some pts
         \<and> length pts = 50
         \<and> map fst pts = map (\<lambda>n. 200 + real n * ((5000 - 200) / 49)) [0..<50]
         \<and> fst (hd pts) = 200 \<and> fst (last pts) = 5000
         \<and> sorted_wrt (<) (map fst pts)
         \<and> (\<forall>(x, v) \<in> set pts. k (defaults\<lparr>re := x\<rparr>) = Inr v))"
proof -
  have nz: "rw defaults \<noteq> 0" by (simp add: defaults_def)
  then show ?thesis using re_sweep_series [of defaults] by blast
qed

text \<open>
  At \<open>rw = 0\<close> (and \<open>pe \<le> pwf\<close>, so that the run reaches the plot) the sweep pairs 200
  with a non-finite value, the numpy division having returned \<open>inf\<close>, while line 31 on
  the input with \<open>re = 200\<close> raises.
\<close>

theorem re_sweep_series_counterexample:
  "map_option hd
     (series_of DrainageRadius
        (sweep DrainageRadius (defaults\<lparr>pe := 1000, pwf := 1500, rw := 0\<rparr>)))
   = Some (200, NonFinite)
   \<and> k (defaults\<lparr>pe := 1000, pwf := 1500, rw := 0, re := 200\<rparr>) = Inl ZeroDivisionError
   \<and> exception (script (defaults\<lparr>pe := 1000, pwf := 1500, rw := 0\<rparr>) [DrainageRadius])
     = None"
  by (simp add: sweep_re series_of_def hd_map re_range_facts k_values_re_def k_def
      log_ratio_raises script_def point_estimate_def delta_p_def defaults_def
      sensitivity_def blocks_def re_sweep_def)

subsection \<open>Order of the samples\<close>










subsection \<open>The flowing-pressure range and the valid region\<close>





subsection \<open>Sweeps under the validation error\<close>







subsection \<open>Monotonicity of the point-estimate formula\<close>







end
